theory Spec2Isabelle
  imports Main
begin

section \<open>Strings, errors and the calls that leave the process\<close>

text \<open>
  A JavaScript string is a sequence of UTF-16 code units; \<open>str\<close> turns an ASCII literal
  into one. The characters of the source's literals beyond ASCII are written by their
  code unit: 225 (a acute), 226 (a circumflex), 227 (a tilde), 231 (c cedilla),
  243 (o acute). The source file holds them precomposed.
\<close>

type_synonym jsstring = "nat list"

definition str :: "string \<Rightarrow> jsstring" where
  "str cs = map of_char cs"

text \<open>A thrown value is an \<open>Error\<close> object; the code reads only its \<open>message\<close>.\<close>

datatype js_error = Error (message: jsstring)

text \<open>
  The browser and the page are objects of the Puppeteer library, named here by a number.
  Every method called on them is asynchronous and may reject. \<open>call\<close> lists the calls
  the service makes on the library.
\<close>

datatype call =
    Launch
  | NewPage nat
  | SetUserAgent nat
  | SetViewport nat
  | SetRequestInterception nat
  | Goto nat jsstring
  | WaitForSelector nat
  | Content nat
  | BrowserClose nat

section \<open>The session: class \<open>TRF1Service\<close>\<close>

record TRF1Service =
  browser :: "nat option"
  page :: "nat option"
  isInitializing :: bool

text \<open>
  Each \<open>await\<close> on a library call suspends the running method; other requests run
  meanwhile and see the session as it is at that point. A trace entry is the call
  together with the session at the suspension.
\<close>

type_synonym trace = "(call \<times> TRF1Service) list"

text \<open>The constructor: both handles \<open>null\<close>, the guard clear.\<close>

definition constructor :: TRF1Service where
  "constructor = \<lparr>browser = None, page = None, isInitializing = False\<rparr>"

text \<open>
  What the library answers during one run of \<open>initialize\<close>: \<open>puppeteer.launch\<close> gives
  a browser or rejects, \<open>browser.newPage\<close> gives a page or rejects,
  \<open>page.setUserAgent\<close> resolves (\<open>None\<close>) or rejects.
\<close>

record init_env =
  launch :: "js_error + nat"
  newPage :: "js_error + nat"
  setUserAgent :: "js_error option"

text \<open>
  The \<open>catch\<close> block of \<open>initialize\<close> followed by its \<open>finally\<close> block: both handles
  back to \<open>null\<close>, the guard cleared; the error is thrown again by the caller of this
  function.
\<close>

definition init_failed :: "TRF1Service \<Rightarrow> TRF1Service" where
  "init_failed s = s\<lparr>browser := None, page := None, isInitializing := False\<rparr>"

definition initialize ::
  "init_env \<Rightarrow> TRF1Service \<Rightarrow> (js_error + unit) \<times> TRF1Service \<times> trace" where
  "initialize env s =
     (if browser s \<noteq> None \<or> isInitializing s then (Inr (), s, [])
      else
        let s1 = s\<lparr>isInitializing := True\<rparr> in
        (case launch env of
           Inl e \<Rightarrow> (Inl e, init_failed s1, [(Launch, s1)])
         | Inr b \<Rightarrow>
             let s2 = s1\<lparr>browser := Some b\<rparr> in
             (case newPage env of
                Inl e \<Rightarrow> (Inl e, init_failed s2, [(Launch, s1), (NewPage b, s2)])
              | Inr p \<Rightarrow>
                  let s3 = s2\<lparr>page := Some p\<rparr> in
                  (case setUserAgent env of
                     Some e \<Rightarrow>
                       (Inl e, init_failed s3,
                        [(Launch, s1), (NewPage b, s2), (SetUserAgent p, s3)])
                   | None \<Rightarrow>
                       (Inr (), s3\<lparr>isInitializing := False\<rparr>,
                        [(Launch, s1), (NewPage b, s2), (SetUserAgent p, s3)])))))"

text \<open>
  \<open>close\<close>: the argument is the answer of \<open>browser.close()\<close>. When it rejects, the
  two assignments after the \<open>await\<close> are not reached and the rejection leaves \<open>close\<close>.
\<close>

definition close ::
  "js_error option \<Rightarrow> TRF1Service \<Rightarrow> (js_error + unit) \<times> TRF1Service \<times> trace" where
  "close r s =
     (case browser s of
        None \<Rightarrow> (Inr (), s, [])
      | Some b \<Rightarrow>
          (case r of
             Some e \<Rightarrow> (Inl e, s, [(BrowserClose b, s)])
           | None \<Rightarrow> (Inr (), s\<lparr>browser := None, page := None\<rparr>, [(BrowserClose b, s)])))"

definition isReady :: "TRF1Service \<Rightarrow> bool" where
  "isReady s = (browser s \<noteq> None \<and> page s \<noteq> None)"

section \<open>The query: \<open>consultarProcesso\<close>\<close>

text \<open>
  \<open>String.prototype.includes\<close> (named \<open>str_includes\<close> here): some position of the receiver starts a copy of the
  argument. The empty string is included in every string.
\<close>

fun startsWith :: "jsstring \<Rightarrow> jsstring \<Rightarrow> bool" where
  "startsWith hay [] = True"
| "startsWith [] (n # ns) = False"
| "startsWith (h # hs) (n # ns) = (h = n \<and> startsWith hs ns)"

fun str_includes :: "jsstring \<Rightarrow> jsstring \<Rightarrow> bool" where
  "str_includes [] needle = (needle = [])"
| "str_includes (h # hs) needle = (startsWith (h # hs) needle \<or> str_includes hs needle)"

text \<open>
  \<open>String.prototype.toLowerCase\<close> is the engine's: its Unicode table is no part of the
  repository, so the functions below take it as the parameter \<open>lower\<close>.
  \<open>lower_latin1\<close> is what it computes on strings whose code units are all below 256;
  the examples use it.
\<close>

definition lower_latin1 :: "jsstring \<Rightarrow> jsstring" where
  "lower_latin1 cs =
     map (\<lambda>c. if (65 \<le> c \<and> c \<le> 90) \<or> (192 \<le> c \<and> c \<le> 222 \<and> c \<noteq> 215) then c + 32 else c) cs"

definition palavrasChaveRPV :: "jsstring list" where
  "palavrasChaveRPV =
     [str ''Requisi'' @ [231, 227] @ str ''o de Pequeno Valor'',
      str ''RPV'',
      str ''migra'' @ [231, 227] @ str ''o'',
      str ''migrado'',
      str ''precat'' @ [243] @ str ''rio'',
      str ''requisitorio'']"

text \<open>
  The \<open>for\<close> loop over the keywords, with its \<open>break\<close>: the pair is
  \<open>(temRPV, detalhesRPV)\<close> when the loop is left.
\<close>

fun scan :: "(jsstring \<Rightarrow> jsstring) \<Rightarrow> jsstring \<Rightarrow> jsstring list \<Rightarrow> bool \<times> jsstring" where
  "scan lower html [] = (False, [])"
| "scan lower html (palavra # rest) =
     (if str_includes (lower html) (lower palavra) then (True, palavra)
      else scan lower html rest)"

text \<open>
  The object returned by \<open>consultarProcesso\<close>, which is also the JSON body of every
  answer of the two query routes. The failure object has no \<open>temRPV\<close> and no
  \<open>detalhes\<close>.
\<close>

record QueryResult =
  sucesso :: bool
  mensagem :: jsstring
  temRPV :: "bool option"
  detalhes :: "jsstring option"

text \<open>
  A request field is a string or is absent (\<open>undefined\<close>). \<open>falsy\<close> is the
  test \<open>!v\<close>, \<open>interp\<close> is \<open>${v}\<close> in a template literal.
\<close>

type_synonym jsval = "jsstring option"

definition falsy :: "jsval \<Rightarrow> bool" where
  "falsy v = (case v of None \<Rightarrow> True | Some x \<Rightarrow> x = [])"

definition interp :: "jsval \<Rightarrow> jsstring" where
  "interp v = (case v of None \<Rightarrow> str ''undefined'' | Some x \<Rightarrow> x)"

definition url_of :: "jsval \<Rightarrow> jsval \<Rightarrow> jsval \<Rightarrow> jsstring" where
  "url_of secao proc uf =
     str ''https://processual.trf1.jus.br/consultaProcessual/processoExecucao/listar.php?secao=''
       @ interp secao @ str ''&proc='' @ interp proc @ str ''&uf='' @ interp uf"

text \<open>
  What the library answers during one run of \<open>consultarProcesso\<close>: the answers to the
  \<open>initialize\<close> it may start, \<open>page.goto\<close> resolving (\<open>None\<close>) or rejecting,
  \<open>page.content\<close> giving the HTML or rejecting.
\<close>

record query_env =
  q_init :: init_env
  goto :: "js_error option"
  content :: "js_error + jsstring"

definition msg_falha :: jsstring where
  "msg_falha = str ''Falha ao inicializar a p'' @ [225] @ str ''gina''"

definition msg_encontrada :: "jsstring \<Rightarrow> jsstring" where
  "msg_encontrada detalhesRPV = str ''RPV encontrada: '' @ detalhesRPV"

definition msg_nao_encontrada :: jsstring where
  "msg_nao_encontrada =
     str ''P'' @ [225] @ str ''gina carregada, mas RPV n'' @ [227] @ str ''o foi encontrada''"

definition msg_erro :: "js_error \<Rightarrow> jsstring" where
  "msg_erro e = str ''Erro durante a consulta: '' @ message e"

text \<open>The \<open>try\<close> block of \<open>consultarProcesso\<close>: \<open>Inl\<close> is what it throws.\<close>

definition consultarProcesso_try ::
  "(jsstring \<Rightarrow> jsstring) \<Rightarrow> query_env \<Rightarrow> TRF1Service \<Rightarrow> jsval \<Rightarrow> jsval \<Rightarrow> jsval
     \<Rightarrow> (js_error + QueryResult) \<times> TRF1Service \<times> trace" where
  "consultarProcesso_try lower env s secao proc uf =
     (case (if browser s = None \<or> page s = None then initialize (q_init env) s
            else (Inr (), s, [])) of
        (Inl e, s1, t1) \<Rightarrow> (Inl e, s1, t1)
      | (Inr u, s1, t1) \<Rightarrow>
          (case page s1 of
             None \<Rightarrow> (Inl (Error msg_falha), s1, t1)
           | Some p \<Rightarrow>
               let url = url_of secao proc uf in
               (case goto env of
                  Some e \<Rightarrow> (Inl e, s1, t1 @ [(Goto p url, s1)])
                | None \<Rightarrow>
                    (case content env of
                       Inl e \<Rightarrow> (Inl e, s1, t1 @ [(Goto p url, s1), (Content p, s1)])
                     | Inr html \<Rightarrow>
                         (case scan lower html palavrasChaveRPV of
                            (tem, detalhesRPV) \<Rightarrow>
                              (Inr \<lparr>sucesso = True,
                                    mensagem = (if tem then msg_encontrada detalhesRPV
                                                else msg_nao_encontrada),
                                    temRPV = Some tem,
                                    detalhes = Some detalhesRPV\<rparr>,
                               s1, t1 @ [(Goto p url, s1), (Content p, s1)]))))))"

text \<open>The whole method: the \<open>catch\<close> block turns what was thrown into a result.\<close>

definition consultarProcesso ::
  "(jsstring \<Rightarrow> jsstring) \<Rightarrow> query_env \<Rightarrow> TRF1Service \<Rightarrow> jsval \<Rightarrow> jsval \<Rightarrow> jsval
     \<Rightarrow> QueryResult \<times> TRF1Service \<times> trace" where
  "consultarProcesso lower env s secao proc uf =
     (case consultarProcesso_try lower env s secao proc uf of
        (Inr resultado, s1, t1) \<Rightarrow> (resultado, s1, t1)
      | (Inl e, s1, t1) \<Rightarrow>
          (\<lparr>sucesso = False, mensagem = msg_erro e, temRPV = None, detalhes = None\<rparr>,
           s1, t1))"

section \<open>The routes \<open>POST /api/consultar\<close> and \<open>GET /api/consultar\<close>\<close>

text \<open>
  A request carries the fields of its JSON body and of its query string: \<open>req.body\<close> is
  the object the middleware \<open>express.json()\<close> leaves (empty when the request has no JSON
  body), \<open>req.query\<close> the parsed query string. An answer is a status and a JSON body. A
  handler also yields the session it leaves, the methods of the service it invoked, in
  order, and the calls made on the library.
\<close>

record request =
  body :: "string \<Rightarrow> jsval"
  query :: "string \<Rightarrow> jsval"

record response =
  status :: nat
  json :: QueryResult

datatype invocation =
    IsReady
  | Initialize
  | ConsultarProcesso jsval jsval jsval

record handler_env =
  h_init :: init_env
  h_query :: query_env

definition msg_obrigatorios :: jsstring where
  "msg_obrigatorios =
     str ''Par'' @ [226] @ str ''metros obrigat'' @ [243] @ str ''rios: secao, proc, uf''"

definition post_consultar ::
  "(jsstring \<Rightarrow> jsstring) \<Rightarrow> handler_env \<Rightarrow> request \<Rightarrow> TRF1Service
     \<Rightarrow> response \<times> TRF1Service \<times> invocation list \<times> trace" where
  "post_consultar lower env req s =
     (let secao = body req ''secao''; proc = body req ''proc''; uf = body req ''uf'' in
      if falsy secao \<or> falsy proc \<or> falsy uf then
        (\<lparr>status = 400,
          json = \<lparr>sucesso = False, mensagem = msg_obrigatorios,
                  temRPV = None, detalhes = None\<rparr>\<rparr>,
         s, [], [])
      else
        (case (if \<not> isReady s then (initialize (h_init env) s, [IsReady, Initialize])
               else ((Inr (), s, []), [IsReady])) of
           ((Inl e, s1, t1), invs) \<Rightarrow>
             (\<lparr>status = 500,
               json = \<lparr>sucesso = False, mensagem = msg_erro e,
                       temRPV = None, detalhes = None\<rparr>\<rparr>,
              s1, invs, t1)
         | ((Inr u, s1, t1), invs) \<Rightarrow>
             (case consultarProcesso lower (h_query env) s1 secao proc uf of
                (resultado, s2, t2) \<Rightarrow>
                  (\<lparr>status = 200, json = resultado\<rparr>,
                   s2, invs @ [ConsultarProcesso secao proc uf], t1 @ t2))))"

definition get_consultar ::
  "(jsstring \<Rightarrow> jsstring) \<Rightarrow> handler_env \<Rightarrow> request \<Rightarrow> TRF1Service
     \<Rightarrow> response \<times> TRF1Service \<times> invocation list \<times> trace" where
  "get_consultar lower env req s =
     (let secao = query req ''secao''; proc = query req ''proc''; uf = query req ''uf'' in
      if falsy secao \<or> falsy proc \<or> falsy uf then
        (\<lparr>status = 400,
          json = \<lparr>sucesso = False, mensagem = msg_obrigatorios,
                  temRPV = None, detalhes = None\<rparr>\<rparr>,
         s, [], [])
      else
        (case (if \<not> isReady s then (initialize (h_init env) s, [IsReady, Initialize])
               else ((Inr (), s, []), [IsReady])) of
           ((Inl e, s1, t1), invs) \<Rightarrow>
             (\<lparr>status = 500,
               json = \<lparr>sucesso = False, mensagem = msg_erro e,
                       temRPV = None, detalhes = None\<rparr>\<rparr>,
              s1, invs, t1)
         | ((Inr u, s1, t1), invs) \<Rightarrow>
             (case consultarProcesso lower (h_query env) s1 secao proc uf of
                (resultado, s2, t2) \<Rightarrow>
                  (\<lparr>status = 200, json = resultado\<rparr>,
                   s2, invs @ [ConsultarProcesso secao proc uf], t1 @ t2))))"

section \<open>Sequences of operations on the session\<close>

datatype op =
    OpInitialize init_env
  | OpConsultarProcesso query_env jsval jsval jsval
  | OpClose "js_error option"

text \<open>One operation: the session it leaves and the calls it made on the library.\<close>

fun step :: "(jsstring \<Rightarrow> jsstring) \<Rightarrow> op \<Rightarrow> TRF1Service \<Rightarrow> TRF1Service \<times> trace" where
  "step lower (OpInitialize env) s = snd (initialize env s)"
| "step lower (OpConsultarProcesso env secao proc uf) s =
     snd (consultarProcesso lower env s secao proc uf)"
| "step lower (OpClose r) s = snd (close r s)"

fun run :: "(jsstring \<Rightarrow> jsstring) \<Rightarrow> op list \<Rightarrow> TRF1Service \<Rightarrow> TRF1Service \<times> trace" where
  "run lower [] s = (s, [])"
| "run lower (x # xs) s =
     (case step lower x s of
        (s1, t1) \<Rightarrow> (case run lower xs s1 of (s2, t2) \<Rightarrow> (s2, t1 @ t2)))"

text \<open>The number of browser processes a trace started.\<close>

definition launches :: "trace \<Rightarrow> nat" where
  "launches tr = length (filter (\<lambda>e. fst e = Launch) tr)"




text \<open>The session invariant of the data model.\<close>

definition session_inv :: "TRF1Service \<Rightarrow> bool" where
  "session_inv s = (page s \<noteq> None \<longrightarrow> browser s \<noteq> None)"

section \<open>The second variant of the service\<close>

text \<open>
  The repository holds the class \<open>TRF1Service\<close> a second time, for another deployment.
  There \<open>initialize\<close> awaits two more configuration calls on the page after
  \<open>setUserAgent\<close> (\<open>setViewport\<close> and \<open>setRequestInterception\<close>; the handler it then
  registers with \<open>page.on\<close> is not awaited), and \<open>consultarProcesso\<close> waits for a
  selector between the navigation and the read of the content, inside a \<open>try\<close> of its
  own whose \<open>catch\<close> is empty. \<open>close\<close> and \<open>isReady\<close> are the same text.
\<close>

record init_env_vercel = init_env +
  setViewport :: "js_error option"
  setRequestInterception :: "js_error option"

definition initialize_vercel ::
  "init_env_vercel \<Rightarrow> TRF1Service \<Rightarrow> (js_error + unit) \<times> TRF1Service \<times> trace" where
  "initialize_vercel env s =
     (if browser s \<noteq> None \<or> isInitializing s then (Inr (), s, [])
      else
        let s1 = s\<lparr>isInitializing := True\<rparr> in
        (case launch env of
           Inl e \<Rightarrow> (Inl e, init_failed s1, [(Launch, s1)])
         | Inr b \<Rightarrow>
             let s2 = s1\<lparr>browser := Some b\<rparr> in
             (case newPage env of
                Inl e \<Rightarrow> (Inl e, init_failed s2, [(Launch, s1), (NewPage b, s2)])
              | Inr p \<Rightarrow>
                  let s3 = s2\<lparr>page := Some p\<rparr>;
                      t3 = [(Launch, s1), (NewPage b, s2), (SetUserAgent p, s3)] in
                  (case setUserAgent env of
                     Some e \<Rightarrow> (Inl e, init_failed s3, t3)
                   | None \<Rightarrow>
                       (case setViewport env of
                          Some e \<Rightarrow> (Inl e, init_failed s3, t3 @ [(SetViewport p, s3)])
                        | None \<Rightarrow>
                            (case setRequestInterception env of
                               Some e \<Rightarrow>
                                 (Inl e, init_failed s3,
                                  t3 @ [(SetViewport p, s3), (SetRequestInterception p, s3)])
                             | None \<Rightarrow>
                                 (Inr (), s3\<lparr>isInitializing := False\<rparr>,
                                  t3 @ [(SetViewport p, s3),
                                        (SetRequestInterception p, s3)])))))))"

record query_env_vercel =
  v_init :: init_env_vercel
  v_goto :: "js_error option"
  v_waitForSelector :: "js_error option"
  v_content :: "js_error + jsstring"

definition consultarProcesso_vercel_try ::
  "(jsstring \<Rightarrow> jsstring) \<Rightarrow> query_env_vercel \<Rightarrow> TRF1Service \<Rightarrow> jsval \<Rightarrow> jsval \<Rightarrow> jsval
     \<Rightarrow> (js_error + QueryResult) \<times> TRF1Service \<times> trace" where
  "consultarProcesso_vercel_try lower env s secao proc uf =
     (case (if browser s = None \<or> page s = None then initialize_vercel (v_init env) s
            else (Inr (), s, [])) of
        (Inl e, s1, t1) \<Rightarrow> (Inl e, s1, t1)
      | (Inr u, s1, t1) \<Rightarrow>
          (case page s1 of
             None \<Rightarrow> (Inl (Error msg_falha), s1, t1)
           | Some p \<Rightarrow>
               let url = url_of secao proc uf in
               (case v_goto env of
                  Some e \<Rightarrow> (Inl e, s1, t1 @ [(Goto p url, s1)])
                | None \<Rightarrow>
                    let t2 = t1 @ [(Goto p url, s1), (WaitForSelector p, s1), (Content p, s1)] in
                    (case v_content env of
                       Inl e \<Rightarrow> (Inl e, s1, t2)
                     | Inr html \<Rightarrow>
                         (case scan lower html palavrasChaveRPV of
                            (tem, detalhesRPV) \<Rightarrow>
                              (Inr \<lparr>sucesso = True,
                                    mensagem = (if tem then msg_encontrada detalhesRPV
                                                else msg_nao_encontrada),
                                    temRPV = Some tem,
                                    detalhes = Some detalhesRPV\<rparr>,
                               s1, t2))))))"

definition consultarProcesso_vercel ::
  "(jsstring \<Rightarrow> jsstring) \<Rightarrow> query_env_vercel \<Rightarrow> TRF1Service \<Rightarrow> jsval \<Rightarrow> jsval \<Rightarrow> jsval
     \<Rightarrow> QueryResult \<times> TRF1Service \<times> trace" where
  "consultarProcesso_vercel lower env s secao proc uf =
     (case consultarProcesso_vercel_try lower env s secao proc uf of
        (Inr resultado, s1, t1) \<Rightarrow> (resultado, s1, t1)
      | (Inl e, s1, t1) \<Rightarrow>
          (\<lparr>sucesso = False, mensagem = msg_erro e, temRPV = None, detalhes = None\<rparr>,
           s1, t1))"

text \<open>
  The answers of the second variant's library calls, read as answers to the first
  variant's: the configuration of the page rejects with the first of its three calls
  that rejects, and the answer to the wait for the selector is dropped.
\<close>

definition configure_vercel :: "init_env_vercel \<Rightarrow> js_error option" where
  "configure_vercel env =
     (case setUserAgent env of
        Some e \<Rightarrow> Some e
      | None \<Rightarrow> (case setViewport env of Some e \<Rightarrow> Some e
                 | None \<Rightarrow> setRequestInterception env))"

definition init_env_of :: "init_env_vercel \<Rightarrow> init_env" where
  "init_env_of env =
     \<lparr>launch = launch env, newPage = newPage env, setUserAgent = configure_vercel env\<rparr>"

definition query_env_of :: "query_env_vercel \<Rightarrow> query_env" where
  "query_env_of env =
     \<lparr>q_init = init_env_of (v_init env), goto = v_goto env, content = v_content env\<rparr>"


text \<open>
  Specification side. A keyword is a case-insensitive substring of the HTML when the
  lowered HTML holds a copy of the lowered keyword. A list of outcomes is
  "between a successful initialization and the next close" when some \<open>InitOk\<close> in it
  has no \<open>CloseOk\<close> after it.
\<close>

definition ci_substring :: "(jsstring \<Rightarrow> jsstring) \<Rightarrow> jsstring \<Rightarrow> jsstring \<Rightarrow> bool" where
  "ci_substring lower kw html = (\<exists>pre post. lower html = pre @ lower kw @ post)"


section \<open>Initialization\<close>

lemma initialize_cases:
  "initialize env s = (r, s', tr) \<Longrightarrow>
     (browser s \<noteq> None \<or> isInitializing s) \<and> r = Inr () \<and> s' = s \<and> tr = []
   \<or> browser s = None \<and> \<not> isInitializing s \<and>
       (\<exists>e. r = Inl e \<and> s' = init_failed s \<and> launches tr \<le> 1 \<and>
          (launch env = Inl e
           \<or> (\<exists>b. launch env = Inr b \<and> newPage env = Inl e)
           \<or> (\<exists>b p. launch env = Inr b \<and> newPage env = Inr p \<and> setUserAgent env = Some e)))
   \<or> browser s = None \<and> \<not> isInitializing s \<and>
       (\<exists>b p. r = Inr () \<and> launch env = Inr b \<and> newPage env = Inr p \<and> setUserAgent env = None
          \<and> s' = s\<lparr>browser := Some b, page := Some p\<rparr> \<and> launches tr = 1)"
  by (auto simp: initialize_def init_failed_def launches_def Let_def
           split: if_splits sum.splits option.splits)

lemma initialize_snapshots:
  "(c, snap) \<in> set (snd (snd (initialize env s))) \<Longrightarrow> isInitializing snap"
  by (auto simp: initialize_def init_failed_def Let_def
           split: if_splits sum.splits option.splits)

lemma initialize_noop:
  "browser s \<noteq> None \<or> isInitializing s \<Longrightarrow> initialize env s = (Inr (), s, [])"
  by (simp add: initialize_def)

lemma run_initialize_noop:
  "browser s \<noteq> None \<or> isInitializing s \<Longrightarrow> run lower (map OpInitialize envs) s = (s, [])"
  by (induction envs) (simp_all add: initialize_noop)

text \<open>
  C3. \<open>initialize\<close> is idempotent. With a browser handle set or the guard set it
  returns at once: same session, no call on the library. After an \<open>initialize\<close> that
  returned without throwing, a second \<open>initialize\<close>, and any number of further ones,
  leave the session as it is and start no browser: the first call and all later ones
  together launch at most one. A call arriving while another is suspended at one of its
  \<open>await\<close>s sees the guard set and returns at once as well.
\<close>

theorem initialize_idempotent:
  "(browser s \<noteq> None \<or> isInitializing s \<longrightarrow> initialize env s = (Inr (), s, []))
   \<and> (\<forall>s1 t1. initialize env s = (Inr (), s1, t1) \<longrightarrow>
        initialize env2 s1 = (Inr (), s1, [])
        \<and> run lower (map OpInitialize envs) s1 = (s1, [])
        \<and> launches (t1 @ snd (run lower (map OpInitialize envs) s1)) \<le> 1)
   \<and> (\<forall>c snap. (c, snap) \<in> set (snd (snd (initialize env s))) \<longrightarrow>
        initialize env2 snap = (Inr (), snap, []))"
proof (intro conjI allI impI)
  assume "browser s \<noteq> None \<or> isInitializing s"
  then show "initialize env s = (Inr (), s, [])" by (rule initialize_noop)
next
  fix s1 t1 assume a: "initialize env s = (Inr (), s1, t1)"
  from initialize_cases[OF a] have g: "browser s1 \<noteq> None \<or> isInitializing s1"
    by auto
  from g show "initialize env2 s1 = (Inr (), s1, [])" by (rule initialize_noop)
  from g show r: "run lower (map OpInitialize envs) s1 = (s1, [])"
    by (rule run_initialize_noop)
  from initialize_cases[OF a] have "launches t1 \<le> 1" by (auto simp: launches_def)
  with r show "launches (t1 @ snd (run lower (map OpInitialize envs) s1)) \<le> 1" by simp
next
  fix c snap assume "(c, snap) \<in> set (snd (snd (initialize env s)))"
  then have "isInitializing snap" by (rule initialize_snapshots)
  then show "initialize env2 snap = (Inr (), snap, [])" by (simp add: initialize_noop)
qed

theorem initialize_idempotent_witness:
  "initialize \<lparr>launch = Inr 1, newPage = Inr 2, setUserAgent = None\<rparr> constructor =
     (Inr (), \<lparr>browser = Some 1, page = Some 2, isInitializing = False\<rparr>,
      [(Launch, \<lparr>browser = None, page = None, isInitializing = True\<rparr>),
       (NewPage 1, \<lparr>browser = Some 1, page = None, isInitializing = True\<rparr>),
       (SetUserAgent 2, \<lparr>browser = Some 1, page = Some 2, isInitializing = True\<rparr>)])
   \<and> initialize \<lparr>launch = Inr 3, newPage = Inr 4, setUserAgent = None\<rparr>
        \<lparr>browser = Some 1, page = Some 2, isInitializing = False\<rparr> =
       (Inr (), \<lparr>browser = Some 1, page = Some 2, isInitializing = False\<rparr>, [])
   \<and> initialize \<lparr>launch = Inr 3, newPage = Inr 4, setUserAgent = None\<rparr>
        \<lparr>browser = None, page = None, isInitializing = True\<rparr> =
       (Inr (), \<lparr>browser = None, page = None, isInitializing = True\<rparr>, [])"
proof -
  let ?e = "\<lparr>launch = Inr 1, newPage = Inr 2, setUserAgent = None\<rparr>"
  let ?e2 = "\<lparr>launch = Inr 3, newPage = Inr 4, setUserAgent = None\<rparr>"
  have h: "initialize ?e constructor =
     (Inr (), \<lparr>browser = Some 1, page = Some 2, isInitializing = False\<rparr>,
      [(Launch, \<lparr>browser = None, page = None, isInitializing = True\<rparr>),
       (NewPage 1, \<lparr>browser = Some 1, page = None, isInitializing = True\<rparr>),
       (SetUserAgent 2, \<lparr>browser = Some 1, page = Some 2, isInitializing = True\<rparr>)])"
    by (simp add: initialize_def constructor_def)
  note t = initialize_idempotent [of constructor ?e ?e2 id "[]"]
  from t h have "initialize ?e2 \<lparr>browser = Some 1, page = Some 2, isInitializing = False\<rparr> =
       (Inr (), \<lparr>browser = Some 1, page = Some 2, isInitializing = False\<rparr>, [])"
    by blast
  moreover from t h have "initialize ?e2 \<lparr>browser = None, page = None, isInitializing = True\<rparr> =
       (Inr (), \<lparr>browser = None, page = None, isInitializing = True\<rparr>, [])"
    by simp
  ultimately show ?thesis using h by simp
qed

text \<open>
  C7. When \<open>initialize\<close> throws, both handles are \<open>null\<close> and the guard is clear in
  the session it leaves. A call that sets the guard (no browser handle, guard clear on
  entry) throws the error of the first step that rejects, be it the launch, the creation
  of the page or its configuration; the guard is set at every \<open>await\<close> in between and
  clear on exit, whether the call returned or threw.
\<close>

theorem initialize_failure_resets:
  assumes "initialize env s = (r, s', tr)"
  shows "(\<forall>e. r = Inl e \<longrightarrow> browser s' = None \<and> page s' = None \<and> \<not> isInitializing s')
       \<and> (browser s = None \<and> \<not> isInitializing s \<longrightarrow>
            \<not> isInitializing s'
            \<and> (\<forall>e. launch env = Inl e \<longrightarrow> r = Inl e)
            \<and> (\<forall>e b. launch env = Inr b \<and> newPage env = Inl e \<longrightarrow> r = Inl e)
            \<and> (\<forall>e b p. launch env = Inr b \<and> newPage env = Inr p \<and> setUserAgent env = Some e
                  \<longrightarrow> r = Inl e)
            \<and> (\<forall>c snap. (c, snap) \<in> set tr \<longrightarrow> isInitializing snap))"
proof -
  have snaps: "\<forall>c snap. (c, snap) \<in> set tr \<longrightarrow> isInitializing snap"
    using assms initialize_snapshots [of _ _ env s] by simp
  from initialize_cases [OF assms] snaps show ?thesis
    by (auto simp: init_failed_def)
qed

theorem initialize_failure_resets_witness:
  "initialize \<lparr>launch = Inr 1, newPage = Inl (Error (str ''Target closed'')), setUserAgent = None\<rparr>
     constructor =
     (Inl (Error (str ''Target closed'')),
      \<lparr>browser = None, page = None, isInitializing = False\<rparr>,
      [(Launch, \<lparr>browser = None, page = None, isInitializing = True\<rparr>),
       (NewPage 1, \<lparr>browser = Some 1, page = None, isInitializing = True\<rparr>)])
   \<and> browser constructor = None \<and> \<not> isInitializing constructor"
proof -
  let ?e = "\<lparr>launch = Inr 1, newPage = Inl (Error (str ''Target closed'')), setUserAgent = None\<rparr>"
  obtain r s' tr where h: "initialize ?e constructor = (r, s', tr)"
    by (cases "initialize ?e constructor") blast
  have c: "browser constructor = None \<and> \<not> isInitializing constructor"
    by (simp add: constructor_def)
  from initialize_failure_resets [OF h] c
  have "r = Inl (Error (str ''Target closed''))" and "\<not> isInitializing s'"
    by simp_all
  with initialize_failure_resets [OF h]
  have "browser s' = None" and "page s' = None" by simp_all
  with \<open>\<not> isInitializing s'\<close> have "s' = \<lparr>browser = None, page = None, isInitializing = False\<rparr>"
    by (cases s') simp
  moreover from h have "tr = [(Launch, \<lparr>browser = None, page = None, isInitializing = True\<rparr>),
       (NewPage 1, \<lparr>browser = Some 1, page = None, isInitializing = True\<rparr>)]"
    by (simp add: initialize_def constructor_def init_failed_def)
  ultimately show ?thesis using h c \<open>r = Inl (Error (str ''Target closed''))\<close> by simp
qed

section \<open>Sequences of operations\<close>

lemma consultarProcesso_session:
  "fst (snd (consultarProcesso lower env s secao proc uf)) =
     (if browser s = None \<or> page s = None then fst (snd (initialize (q_init env) s)) else s)"
  by (auto simp: consultarProcesso_def consultarProcesso_try_def Let_def
           split: prod.splits sum.splits option.splits)

lemma run_Cons_fst: "fst (run lower (x # xs) s) = fst (run lower xs (fst (step lower x s)))"
  by (cases "step lower x s"; cases "run lower xs (fst (step lower x s))") simp

lemma run_Cons_snd:
  "snd (run lower (x # xs) s) = snd (step lower x s) @ snd (run lower xs (fst (step lower x s)))"
  by (cases "step lower x s"; cases "run lower xs (fst (step lower x s))") simp

lemma initialize_inv: "session_inv s \<Longrightarrow> session_inv (fst (snd (initialize env s)))"
  by (auto simp: initialize_def init_failed_def session_inv_def Let_def
           split: sum.splits option.splits)

lemma close_inv: "session_inv s \<Longrightarrow> session_inv (fst (snd (close r s)))"
  by (auto simp: close_def session_inv_def split: option.splits)

lemma step_inv: "session_inv s \<Longrightarrow> session_inv (fst (step lower x s))"
  by (cases x) (simp_all add: initialize_inv close_inv consultarProcesso_session)

lemma run_inv: "session_inv s \<Longrightarrow> session_inv (fst (run lower xs s))"
proof (induction xs arbitrary: s)
  case Nil
  then show ?case by simp
next
  case (Cons x xs)
  from Cons.prems have "session_inv (fst (step lower x s))" by (rule step_inv)
  then have "session_inv (fst (run lower xs (fst (step lower x s))))" by (rule Cons.IH)
  then show ?case by (simp only: run_Cons_fst)
qed

lemma initialize_snap_inv:
  "session_inv s \<Longrightarrow> (c, snap) \<in> set (snd (snd (initialize env s))) \<Longrightarrow> session_inv snap"
  by (auto simp: initialize_def init_failed_def session_inv_def Let_def
           split: if_splits sum.splits option.splits)

lemma close_snap_inv:
  "session_inv s \<Longrightarrow> (c, snap) \<in> set (snd (snd (close r s))) \<Longrightarrow> session_inv snap"
  by (auto simp: close_def split: option.splits)

lemma consultarProcesso_snap_inv:
  assumes "session_inv s"
    and "(c, snap) \<in> set (snd (snd (consultarProcesso lower env s secao proc uf)))"
  shows "session_inv snap"
proof -
  let ?i = "if browser s = None \<or> page s = None then initialize (q_init env) s
            else (Inr (), s, [])"
  have a: "session_inv (fst (snd ?i))"
    using assms(1) by (simp add: initialize_inv)
  have b: "\<And>c' snap'. (c', snap') \<in> set (snd (snd ?i)) \<Longrightarrow> session_inv snap'"
    using assms(1) initialize_snap_inv by (auto split: if_splits)
  from assms(2) have "(c, snap) \<in> set (snd (snd ?i)) \<or> snap = fst (snd ?i)"
    by (auto simp: consultarProcesso_def consultarProcesso_try_def Let_def
             split: prod.splits sum.splits option.splits if_splits)
  with a b show ?thesis by blast
qed

lemma step_snap_inv:
  "session_inv s \<Longrightarrow> (c, snap) \<in> set (snd (step lower x s)) \<Longrightarrow> session_inv snap"
  by (cases x) (auto intro: initialize_snap_inv close_snap_inv consultarProcesso_snap_inv)

lemma run_snap_inv:
  "session_inv s \<Longrightarrow> (c, snap) \<in> set (snd (run lower xs s)) \<Longrightarrow> session_inv snap"
proof (induction xs arbitrary: s)
  case Nil
  then show ?case by simp
next
  case (Cons x xs)
  from Cons.prems(2) [unfolded run_Cons_snd]
  consider "(c, snap) \<in> set (snd (step lower x s))"
    | "(c, snap) \<in> set (snd (run lower xs (fst (step lower x s))))"
    by auto
  then show ?case
  proof cases
    case 1
    with Cons.prems(1) show ?thesis by (rule step_snap_inv)
  next
    case 2
    from Cons.prems(1) have "session_inv (fst (step lower x s))" by (rule step_inv)
    from Cons.IH[OF this 2] show ?thesis .
  qed
qed

text \<open>
  C4. Starting from the constructor, after every sequence of \<open>initialize\<close>,
  \<open>consultarProcesso\<close> and \<open>close\<close> operations, whatever the library answers, a page
  handle that is set comes with a browser handle that is set. The same holds of the
  session at every \<open>await\<close> inside these operations.
\<close>

theorem session_invariant:
  "session_inv (fst (run lower ops constructor))
   \<and> (\<forall>c snap. (c, snap) \<in> set (snd (run lower ops constructor)) \<longrightarrow> session_inv snap)"
proof -
  have "session_inv constructor" by (simp add: session_inv_def constructor_def)
  then show ?thesis using run_inv run_snap_inv by blast
qed

theorem session_invariant_witness:
  "page (fst (run id [OpInitialize \<lparr>launch = Inr 1, newPage = Inr 2, setUserAgent = None\<rparr>]
                constructor)) \<noteq> None
   \<and> browser (fst (run id [OpInitialize \<lparr>launch = Inr 1, newPage = Inr 2, setUserAgent = None\<rparr>]
                   constructor)) \<noteq> None"
proof -
  let ?ops = "[OpInitialize \<lparr>launch = Inr 1, newPage = Inr 2, setUserAgent = None\<rparr>]"
  have h: "page (fst (run id ?ops constructor)) \<noteq> None"
    by (simp add: initialize_def constructor_def)
  from session_invariant [of id ?ops] have "session_inv (fst (run id ?ops constructor))"
    by blast
  with h show ?thesis by (simp only: session_inv_def) blast
qed

section \<open>Readiness and closing\<close>























text \<open>
  C6, as the code has it. With no browser handle \<open>close\<close> does nothing. With one, it
  asks the browser to shut down; when that resolves, both handles are cleared; when it
  rejects, \<open>close\<close> throws the rejection and leaves the session as it was. After a
  \<open>close\<close> whose shutdown resolved, another \<open>close\<close> does nothing, so two calls leave
  the session one call leaves; on a session that satisfies the invariant this session
  has both handles \<open>null\<close>.
\<close>

theorem close_idempotent:
  "(browser s = None \<longrightarrow> close r s = (Inr (), s, []))
   \<and> (\<forall>b. browser s = Some b \<longrightarrow>
        close None s = (Inr (), s\<lparr>browser := None, page := None\<rparr>, [(BrowserClose b, s)]))
   \<and> (\<forall>b e. browser s = Some b \<longrightarrow> close (Some e) s = (Inl e, s, [(BrowserClose b, s)]))
   \<and> close r (fst (snd (close None s))) = (Inr (), fst (snd (close None s)), [])
   \<and> (session_inv s \<longrightarrow>
        browser (fst (snd (close None s))) = None \<and> page (fst (snd (close None s))) = None)"
proof (cases "browser s")
  case None
  then have "close r s = (Inr (), s, [])" and "close None s = (Inr (), s, [])"
    by (simp_all add: close_def)
  with None show ?thesis by (simp add: session_inv_def)
next
  case (Some b)
  then have c: "close None s = (Inr (), s\<lparr>browser := None, page := None\<rparr>, [(BrowserClose b, s)])"
    and "\<And>e. close (Some e) s = (Inl e, s, [(BrowserClose b, s)])"
    by (simp_all add: close_def)
  moreover have "close r (s\<lparr>browser := None, page := None\<rparr>) =
      (Inr (), s\<lparr>browser := None, page := None\<rparr>, [])"
    by (simp add: close_def)
  ultimately show ?thesis using Some by simp
qed

theorem close_idempotent_witness:
  "close None \<lparr>browser = Some 1, page = Some 2, isInitializing = False\<rparr> =
     (Inr (), \<lparr>browser = None, page = None, isInitializing = False\<rparr>,
      [(BrowserClose 1, \<lparr>browser = Some 1, page = Some 2, isInitializing = False\<rparr>)])
   \<and> close None \<lparr>browser = None, page = None, isInitializing = False\<rparr> =
     (Inr (), \<lparr>browser = None, page = None, isInitializing = False\<rparr>, [])"
proof -
  let ?s = "\<lparr>browser = Some 1, page = Some 2, isInitializing = False\<rparr>"
  note t = close_idempotent [of ?s None]
  from t have h: "close None ?s =
     (Inr (), \<lparr>browser = None, page = None, isInitializing = False\<rparr>, [(BrowserClose 1, ?s)])"
    by simp
  from t have "close None (fst (snd (close None ?s))) = (Inr (), fst (snd (close None ?s)), [])"
    by blast
  then have "close None \<lparr>browser = None, page = None, isInitializing = False\<rparr> =
     (Inr (), \<lparr>browser = None, page = None, isInitializing = False\<rparr>, [])"
    by (simp only: h fst_conv snd_conv)
  with h show ?thesis by blast
qed

text \<open>
  The claim C6 as the specification words it, a browser handle that is set is always
  cleared, fails on a shutdown that rejects.
\<close>

theorem close_rejected_counterexample:
  "browser \<lparr>browser = Some 1, page = Some 2, isInitializing = False\<rparr> = Some 1
   \<and> close (Some (Error (str ''Protocol error'')))
        \<lparr>browser = Some 1, page = Some 2, isInitializing = False\<rparr> =
       (Inl (Error (str ''Protocol error'')),
        \<lparr>browser = Some 1, page = Some 2, isInitializing = False\<rparr>,
        [(BrowserClose 1, \<lparr>browser = Some 1, page = Some 2, isInitializing = False\<rparr>)])
   \<and> browser (fst (snd (close (Some (Error (str ''Protocol error'')))
          \<lparr>browser = Some 1, page = Some 2, isInitializing = False\<rparr>))) = Some 1
   \<and> page (fst (snd (close (Some (Error (str ''Protocol error'')))
          \<lparr>browser = Some 1, page = Some 2, isInitializing = False\<rparr>))) = Some 2"
  by (simp add: close_def)

section \<open>The keyword scan\<close>

lemma startsWith_iff: "startsWith hay needle \<longleftrightarrow> (\<exists>post. hay = needle @ post)"
  by (induction hay needle rule: startsWith.induct) auto

lemma str_includes_iff: "str_includes hay needle \<longleftrightarrow> (\<exists>pre post. hay = pre @ needle @ post)"
proof (induction hay)
  case Nil
  show ?case by simp
next
  case (Cons h hs)
  show ?case
  proof
    assume "str_includes (h # hs) needle"
    then consider "startsWith (h # hs) needle" | "str_includes hs needle" by auto
    then show "\<exists>pre post. h # hs = pre @ needle @ post"
    proof cases
      case 1
      then obtain post where "h # hs = [] @ needle @ post" by (auto simp: startsWith_iff)
      then show ?thesis by blast
    next
      case 2
      then obtain pre post where "hs = pre @ needle @ post" using Cons.IH by blast
      then have "h # hs = (h # pre) @ needle @ post" by simp
      then show ?thesis by blast
    qed
  next
    assume "\<exists>pre post. h # hs = pre @ needle @ post"
    then obtain pre post where e: "h # hs = pre @ needle @ post" by blast
    show "str_includes (h # hs) needle"
    proof (cases pre)
      case Nil
      with e have "startsWith (h # hs) needle" by (auto simp: startsWith_iff)
      then show ?thesis by simp
    next
      case (Cons a pre')
      with e have "hs = pre' @ needle @ post" by simp
      then have "str_includes hs needle" using Cons.IH by blast
      then show ?thesis by simp
    qed
  qed
qed

lemma scan_found:
  "fst (scan lower html kws) \<longleftrightarrow> (\<exists>kw \<in> set kws. ci_substring lower kw html)"
  by (induction kws) (auto simp: str_includes_iff ci_substring_def)

lemma scan_first:
  "scan lower html kws = (tem, d) \<Longrightarrow>
     (tem \<and> (\<exists>i < length kws. d = kws ! i \<and> ci_substring lower (kws ! i) html
               \<and> (\<forall>j < i. \<not> ci_substring lower (kws ! j) html)))
     \<or> (\<not> tem \<and> d = [] \<and> (\<forall>kw \<in> set kws. \<not> ci_substring lower kw html))"
proof (induction kws)
  case Nil
  then show ?case by simp
next
  case (Cons k ks)
  show ?case
  proof (cases "ci_substring lower k html")
    case True
    with Cons.prems have "tem" and "d = k"
      by (simp_all add: str_includes_iff ci_substring_def)
    with True have "0 < length (k # ks) \<and> d = (k # ks) ! 0
        \<and> ci_substring lower ((k # ks) ! 0) html
        \<and> (\<forall>j < 0. \<not> ci_substring lower ((k # ks) ! j) html)" by simp
    with \<open>tem\<close> show ?thesis by blast
  next
    case False
    with Cons.prems have "scan lower html ks = (tem, d)"
      by (simp add: str_includes_iff ci_substring_def)
    from Cons.IH[OF this] show ?thesis
    proof
      assume "tem \<and> (\<exists>i<length ks. d = ks ! i \<and> ci_substring lower (ks ! i) html \<and>
                 (\<forall>j<i. \<not> ci_substring lower (ks ! j) html))"
      then obtain i where i: "i < length ks" "d = ks ! i" "ci_substring lower (ks ! i) html"
        "\<forall>j<i. \<not> ci_substring lower (ks ! j) html" and "tem" by blast
      have "\<forall>j < Suc i. \<not> ci_substring lower ((k # ks) ! j) html"
        using False i(4) by (auto simp: less_Suc_eq_0_disj)
      with i have "Suc i < length (k # ks) \<and> d = (k # ks) ! Suc i
          \<and> ci_substring lower ((k # ks) ! Suc i) html
          \<and> (\<forall>j < Suc i. \<not> ci_substring lower ((k # ks) ! j) html)" by simp
      with \<open>tem\<close> show ?thesis by blast
    next
      assume "\<not> tem \<and> d = [] \<and> (\<forall>kw\<in>set ks. \<not> ci_substring lower kw html)"
      with False show ?thesis by simp
    qed
  qed
qed

lemma consultarProcesso_content:
  assumes "consultarProcesso lower env s secao proc uf = (r, s', tr)"
    and "(Content p, snap) \<in> set tr"
    and "content env = Inr html"
  shows "r = \<lparr>sucesso = True,
              mensagem = (if fst (scan lower html palavrasChaveRPV)
                          then msg_encontrada (snd (scan lower html palavrasChaveRPV))
                          else msg_nao_encontrada),
              temRPV = Some (fst (scan lower html palavrasChaveRPV)),
              detalhes = Some (snd (scan lower html palavrasChaveRPV))\<rparr>"
  using assms
  by (auto simp: consultarProcesso_def consultarProcesso_try_def initialize_def Let_def
           split: prod.splits sum.splits option.splits if_splits)

text \<open>
  C1. Let a run of \<open>consultarProcesso\<close> have asked the page for its content and received
  the text \<open>html\<close>. Then the result has \<open>sucesso\<close> true; \<open>temRPV\<close> is true exactly when
  one of the six keywords is a case-insensitive substring of \<open>html\<close>; and \<open>detalhes\<close>
  is the first keyword of the list that is one, or the empty string when none is.
\<close>

theorem consultarProcesso_keywords:
  assumes "consultarProcesso lower env s secao proc uf = (r, s', tr)"
    and "(Content p, snap) \<in> set tr"
    and "content env = Inr html"
  shows "palavrasChaveRPV =
           [str ''Requisi'' @ [231, 227] @ str ''o de Pequeno Valor'', str ''RPV'',
            str ''migra'' @ [231, 227] @ str ''o'', str ''migrado'',
            str ''precat'' @ [243] @ str ''rio'', str ''requisitorio'']
       \<and> sucesso r
       \<and> temRPV r = Some (\<exists>kw \<in> set palavrasChaveRPV. ci_substring lower kw html)
       \<and> (\<exists>d. detalhes r = Some d \<and>
            ((\<exists>i < length palavrasChaveRPV.
                 d = palavrasChaveRPV ! i \<and> ci_substring lower (palavrasChaveRPV ! i) html
                 \<and> (\<forall>j < i. \<not> ci_substring lower (palavrasChaveRPV ! j) html))
             \<or> (d = [] \<and> (\<forall>kw \<in> set palavrasChaveRPV. \<not> ci_substring lower kw html))))"
proof -
  obtain tem d where sc: "scan lower html palavrasChaveRPV = (tem, d)"
    by (cases "scan lower html palavrasChaveRPV") blast
  from consultarProcesso_content [OF assms] sc
  have r: "sucesso r" "temRPV r = Some tem" "detalhes r = Some d" by simp_all
  from scan_found [of lower html palavrasChaveRPV] sc
  have tem: "tem \<longleftrightarrow> (\<exists>kw \<in> set palavrasChaveRPV. ci_substring lower kw html)" by simp
  from scan_first [OF sc]
  have "(\<exists>i < length palavrasChaveRPV.
           d = palavrasChaveRPV ! i \<and> ci_substring lower (palavrasChaveRPV ! i) html
           \<and> (\<forall>j < i. \<not> ci_substring lower (palavrasChaveRPV ! j) html))
        \<or> (d = [] \<and> (\<forall>kw \<in> set palavrasChaveRPV. \<not> ci_substring lower kw html))"
    by blast
  with r tem show ?thesis by (simp add: palavrasChaveRPV_def)
qed

theorem consultarProcesso_keywords_witness:
  "consultarProcesso lower_latin1
     \<lparr>q_init = \<lparr>launch = Inr 1, newPage = Inr 2, setUserAgent = None\<rparr>, goto = None,
      content = Inr (str ''<td>PRECAT'' @ [211] @ str ''RIO</td>'')\<rparr>
     \<lparr>browser = Some 1, page = Some 2, isInitializing = False\<rparr>
     (Some (str ''TRF1'')) (Some (str ''10025962720234013311'')) (Some (str ''BA'')) =
     (\<lparr>sucesso = True,
       mensagem = str ''RPV encontrada: precat'' @ [243] @ str ''rio'',
       temRPV = Some True,
       detalhes = Some (str ''precat'' @ [243] @ str ''rio'')\<rparr>,
      \<lparr>browser = Some 1, page = Some 2, isInitializing = False\<rparr>,
      [(Goto 2 (url_of (Some (str ''TRF1'')) (Some (str ''10025962720234013311''))
                  (Some (str ''BA''))),
        \<lparr>browser = Some 1, page = Some 2, isInitializing = False\<rparr>),
       (Content 2, \<lparr>browser = Some 1, page = Some 2, isInitializing = False\<rparr>)])
   \<and> (\<exists>kw \<in> set palavrasChaveRPV.
         ci_substring lower_latin1 kw (str ''<td>PRECAT'' @ [211] @ str ''RIO</td>''))"
proof -
  let ?html = "str ''<td>PRECAT'' @ [211] @ str ''RIO</td>''"
  let ?env = "\<lparr>q_init = \<lparr>launch = Inr 1, newPage = Inr 2, setUserAgent = None\<rparr>,
               goto = None, content = Inr ?html\<rparr>"
  let ?s = "\<lparr>browser = Some 1, page = Some 2, isInitializing = False\<rparr>"
  let ?r = "\<lparr>sucesso = True,
             mensagem = str ''RPV encontrada: precat'' @ [243] @ str ''rio'',
             temRPV = Some True,
             detalhes = Some (str ''precat'' @ [243] @ str ''rio'')\<rparr>"
  let ?tr = "[(Goto 2 (url_of (Some (str ''TRF1'')) (Some (str ''10025962720234013311''))
                  (Some (str ''BA''))), ?s),
              (Content 2, ?s)]"
  have h1: "consultarProcesso lower_latin1 ?env ?s
              (Some (str ''TRF1'')) (Some (str ''10025962720234013311'')) (Some (str ''BA'')) =
            (?r, ?s, ?tr)"
    by (simp add: consultarProcesso_def consultarProcesso_try_def palavrasChaveRPV_def
          str_def lower_latin1_def msg_encontrada_def)
  have h2: "(Content 2, ?s) \<in> set ?tr" by simp
  have h3: "content ?env = Inr ?html" by simp
  from consultarProcesso_keywords [OF h1 h2 h3]
  have "\<exists>kw \<in> set palavrasChaveRPV. ci_substring lower_latin1 kw ?html" by simp
  with h1 show ?thesis by blast
qed

section \<open>Failures of the query\<close>

lemma consultarProcesso_catch:
  "consultarProcesso_try lower env s secao proc uf = (Inl e, s1, t1) \<Longrightarrow>
   consultarProcesso lower env s secao proc uf =
     (\<lparr>sucesso = False, mensagem = str ''Erro durante a consulta: '' @ message e,
       temRPV = None, detalhes = None\<rparr>, s1, t1)"
  by (simp add: consultarProcesso_def msg_erro_def)

lemma consultarProcesso_try_init_fails:
  "browser s = None \<or> page s = None \<Longrightarrow> initialize (q_init env) s = (Inl e, s1, t1) \<Longrightarrow>
   consultarProcesso_try lower env s secao proc uf = (Inl e, s1, t1)"
  by (auto simp: consultarProcesso_try_def)

lemma consultarProcesso_try_goto_fails:
  "consultarProcesso_try lower env s secao proc uf = (x, s1, t1) \<Longrightarrow>
   (Goto p u, snap) \<in> set t1 \<Longrightarrow> goto env = Some e \<Longrightarrow> x = Inl e"
  by (auto simp: consultarProcesso_try_def initialize_def Let_def
           split: prod.splits sum.splits option.splits if_splits)

lemma consultarProcesso_try_content_fails:
  "consultarProcesso_try lower env s secao proc uf = (x, s1, t1) \<Longrightarrow>
   (Content p, snap) \<in> set t1 \<Longrightarrow> content env = Inl e \<Longrightarrow> x = Inl e"
  by (auto simp: consultarProcesso_try_def initialize_def Let_def
           split: prod.splits sum.splits option.splits if_splits)

lemma consultarProcesso_sucesso:
  "sucesso (fst (consultarProcesso lower env s secao proc uf)) \<longleftrightarrow>
     (\<exists>x. fst (consultarProcesso_try lower env s secao proc uf) = Inr x)"
  by (auto simp: consultarProcesso_def consultarProcesso_try_def Let_def
           split: prod.splits sum.splits option.splits)

text \<open>
  C2. Whatever the \<open>try\<close> block of \<open>consultarProcesso\<close> throws, the method returns the
  result with \<open>sucesso\<close> false whose message is "Erro durante a consulta: " followed by
  the message of the error thrown, and it returns such a result only then. This is so
  for an \<open>initialize\<close> that throws, for a navigation that rejects and for a read of the
  content that rejects: each makes the \<open>try\<close> block throw that very error.
\<close>

theorem consultarProcesso_never_throws:
  assumes "consultarProcesso_try lower env s secao proc uf = (x, s', tr)"
  shows "(\<forall>e. x = Inl e \<longrightarrow>
            consultarProcesso lower env s secao proc uf =
              (\<lparr>sucesso = False, mensagem = str ''Erro durante a consulta: '' @ message e,
                temRPV = None, detalhes = None\<rparr>, s', tr))
       \<and> (\<forall>e s1 t1. (browser s = None \<or> page s = None)
              \<and> initialize (q_init env) s = (Inl e, s1, t1) \<longrightarrow> x = Inl e)
       \<and> (\<forall>e p u snap. (Goto p u, snap) \<in> set tr \<and> goto env = Some e \<longrightarrow> x = Inl e)
       \<and> (\<forall>e p snap. (Content p, snap) \<in> set tr \<and> content env = Inl e \<longrightarrow> x = Inl e)
       \<and> (sucesso (fst (consultarProcesso lower env s secao proc uf)) \<longleftrightarrow> (\<exists>y. x = Inr y))"
proof (intro conjI allI impI)
  fix e assume "x = Inl e"
  with assms show "consultarProcesso lower env s secao proc uf =
      (\<lparr>sucesso = False, mensagem = str ''Erro durante a consulta: '' @ message e,
        temRPV = None, detalhes = None\<rparr>, s', tr)"
    by (simp add: consultarProcesso_catch)
next
  fix e s1 t1
  assume "(browser s = None \<or> page s = None) \<and> initialize (q_init env) s = (Inl e, s1, t1)"
  then have "consultarProcesso_try lower env s secao proc uf = (Inl e, s1, t1)"
    by (simp add: consultarProcesso_try_init_fails)
  with assms show "x = Inl e" by simp
next
  fix e p u snap assume "(Goto p u, snap) \<in> set tr \<and> goto env = Some e"
  with assms show "x = Inl e" by (blast dest: consultarProcesso_try_goto_fails)
next
  fix e p snap assume "(Content p, snap) \<in> set tr \<and> content env = Inl e"
  with assms show "x = Inl e" by (blast dest: consultarProcesso_try_content_fails)
next
  from consultarProcesso_sucesso [of lower env s secao proc uf] assms
  show "sucesso (fst (consultarProcesso lower env s secao proc uf)) \<longleftrightarrow> (\<exists>y. x = Inr y)"
    by simp
qed

theorem consultarProcesso_never_throws_witness:
  "consultarProcesso_try lower_latin1
     \<lparr>q_init = \<lparr>launch = Inr 1, newPage = Inr 2, setUserAgent = None\<rparr>,
      goto = Some (Error (str ''Navigation timeout of 60000 ms exceeded'')),
      content = Inr []\<rparr>
     \<lparr>browser = Some 1, page = Some 2, isInitializing = False\<rparr>
     (Some (str ''TRF1'')) (Some (str ''1'')) (Some (str ''BA'')) =
     (Inl (Error (str ''Navigation timeout of 60000 ms exceeded'')),
      \<lparr>browser = Some 1, page = Some 2, isInitializing = False\<rparr>,
      [(Goto 2 (url_of (Some (str ''TRF1'')) (Some (str ''1'')) (Some (str ''BA''))),
        \<lparr>browser = Some 1, page = Some 2, isInitializing = False\<rparr>)])
   \<and> consultarProcesso lower_latin1
     \<lparr>q_init = \<lparr>launch = Inr 1, newPage = Inr 2, setUserAgent = None\<rparr>,
      goto = Some (Error (str ''Navigation timeout of 60000 ms exceeded'')),
      content = Inr []\<rparr>
     \<lparr>browser = Some 1, page = Some 2, isInitializing = False\<rparr>
     (Some (str ''TRF1'')) (Some (str ''1'')) (Some (str ''BA'')) =
     (\<lparr>sucesso = False,
       mensagem = str ''Erro durante a consulta: ''
                    @ str ''Navigation timeout of 60000 ms exceeded'',
       temRPV = None, detalhes = None\<rparr>,
      \<lparr>browser = Some 1, page = Some 2, isInitializing = False\<rparr>,
      [(Goto 2 (url_of (Some (str ''TRF1'')) (Some (str ''1'')) (Some (str ''BA''))),
        \<lparr>browser = Some 1, page = Some 2, isInitializing = False\<rparr>)])"
proof -
  let ?e = "Error (str ''Navigation timeout of 60000 ms exceeded'')"
  let ?env = "\<lparr>q_init = \<lparr>launch = Inr 1, newPage = Inr 2, setUserAgent = None\<rparr>,
               goto = Some ?e, content = Inr []\<rparr>"
  let ?s = "\<lparr>browser = Some 1, page = Some 2, isInitializing = False\<rparr>"
  let ?tr = "[(Goto 2 (url_of (Some (str ''TRF1'')) (Some (str ''1'')) (Some (str ''BA''))), ?s)]"
  have h: "consultarProcesso_try lower_latin1 ?env ?s
             (Some (str ''TRF1'')) (Some (str ''1'')) (Some (str ''BA'')) = (Inl ?e, ?s, ?tr)"
    by (simp add: consultarProcesso_try_def)
  from consultarProcesso_never_throws [OF h]
  have "consultarProcesso lower_latin1 ?env ?s
             (Some (str ''TRF1'')) (Some (str ''1'')) (Some (str ''BA'')) =
        (\<lparr>sucesso = False, mensagem = str ''Erro durante a consulta: '' @ message ?e,
          temRPV = None, detalhes = None\<rparr>, ?s, ?tr)"
    by blast
  with h show ?thesis by simp
qed

text \<open>
  C10. When \<open>consultarProcesso\<close> starts \<open>initialize\<close>, \<open>initialize\<close> returns without
  throwing and the page handle is still \<open>null\<close>, the method makes no call on a page: it
  returns the failure result whose message is "Erro durante a consulta: Falha ao
  inicializar a pagina" (with the accent of the source), the session is the one it
  found and no call at all went to the library.
\<close>

theorem consultarProcesso_null_page:
  assumes "browser s = None \<or> page s = None"
    and "initialize (q_init env) s = (Inr (), s1, t1)"
    and "page s1 = None"
  shows "consultarProcesso lower env s secao proc uf =
           (\<lparr>sucesso = False,
             mensagem = str ''Erro durante a consulta: ''
                          @ str ''Falha ao inicializar a p'' @ [225] @ str ''gina'',
             temRPV = None, detalhes = None\<rparr>, s1, t1)
       \<and> s1 = s \<and> t1 = []"
proof -
  from initialize_cases [OF assms(2)] assms(3) have n: "s1 = s \<and> t1 = []"
    by auto
  from assms have "consultarProcesso_try lower env s secao proc uf =
      (Inl (Error msg_falha), s1, t1)"
    by (auto simp: consultarProcesso_try_def)
  from consultarProcesso_catch [OF this] n show ?thesis
    by (simp add: msg_falha_def)
qed

theorem consultarProcesso_null_page_witness:
  "initialize \<lparr>launch = Inr 1, newPage = Inr 2, setUserAgent = None\<rparr>
     \<lparr>browser = None, page = None, isInitializing = True\<rparr> =
     (Inr (), \<lparr>browser = None, page = None, isInitializing = True\<rparr>, [])
   \<and> consultarProcesso lower_latin1
       \<lparr>q_init = \<lparr>launch = Inr 1, newPage = Inr 2, setUserAgent = None\<rparr>,
        goto = None, content = Inr (str ''RPV'')\<rparr>
       \<lparr>browser = None, page = None, isInitializing = True\<rparr>
       (Some (str ''TRF1'')) (Some (str ''1'')) (Some (str ''BA'')) =
       (\<lparr>sucesso = False,
         mensagem = str ''Erro durante a consulta: ''
                      @ str ''Falha ao inicializar a p'' @ [225] @ str ''gina'',
         temRPV = None, detalhes = None\<rparr>,
        \<lparr>browser = None, page = None, isInitializing = True\<rparr>, [])"
proof -
  let ?i = "\<lparr>launch = Inr 1, newPage = Inr 2, setUserAgent = None\<rparr>"
  let ?env = "\<lparr>q_init = ?i, goto = None, content = Inr (str ''RPV'')\<rparr>"
  let ?s = "\<lparr>browser = None, page = None, isInitializing = True\<rparr>"
  have h1: "browser ?s = None \<or> page ?s = None" by simp
  have h2: "initialize (q_init ?env) ?s = (Inr (), ?s, [])" by (simp add: initialize_def)
  have h3: "page ?s = None" by simp
  from consultarProcesso_null_page [OF h1 h2 h3] h2 show ?thesis by simp
qed

section \<open>The two query routes\<close>

lemma falsy_iff: "falsy v \<longleftrightarrow> v = None \<or> v = Some []"
  by (simp add: falsy_def split: option.split)

text \<open>
  C8. A request to \<open>POST /api/consultar\<close> whose body lacks \<open>secao\<close>, \<open>proc\<close> or \<open>uf\<close>,
  or has one of them empty, is answered with status 400 and \<open>sucesso\<close> false; the
  handler invokes no method of the service, no call goes to the library and the session
  is the one it found. The same holds of \<open>GET /api/consultar\<close> and the fields of the
  query string.
\<close>

theorem consultar_missing_field:
  "(body req ''secao'' \<in> {None, Some []} \<or> body req ''proc'' \<in> {None, Some []}
      \<or> body req ''uf'' \<in> {None, Some []} \<longrightarrow>
      post_consultar lower env req s =
        (\<lparr>status = 400,
          json = \<lparr>sucesso = False,
                  mensagem = str ''Par'' @ [226] @ str ''metros obrigat'' @ [243]
                               @ str ''rios: secao, proc, uf'',
                  temRPV = None, detalhes = None\<rparr>\<rparr>,
         s, [], []))
   \<and> (query req ''secao'' \<in> {None, Some []} \<or> query req ''proc'' \<in> {None, Some []}
      \<or> query req ''uf'' \<in> {None, Some []} \<longrightarrow>
      get_consultar lower env req s =
        (\<lparr>status = 400,
          json = \<lparr>sucesso = False,
                  mensagem = str ''Par'' @ [226] @ str ''metros obrigat'' @ [243]
                               @ str ''rios: secao, proc, uf'',
                  temRPV = None, detalhes = None\<rparr>\<rparr>,
         s, [], []))"
proof (intro conjI impI)
  assume "body req ''secao'' \<in> {None, Some []} \<or> body req ''proc'' \<in> {None, Some []}
      \<or> body req ''uf'' \<in> {None, Some []}"
  then have "falsy (body req ''secao'') \<or> falsy (body req ''proc'') \<or> falsy (body req ''uf'')"
    by (auto simp: falsy_iff)
  then show "post_consultar lower env req s =
        (\<lparr>status = 400,
          json = \<lparr>sucesso = False,
                  mensagem = str ''Par'' @ [226] @ str ''metros obrigat'' @ [243]
                               @ str ''rios: secao, proc, uf'',
                  temRPV = None, detalhes = None\<rparr>\<rparr>,
         s, [], [])"
    by (simp add: post_consultar_def Let_def msg_obrigatorios_def)
next
  assume "query req ''secao'' \<in> {None, Some []} \<or> query req ''proc'' \<in> {None, Some []}
      \<or> query req ''uf'' \<in> {None, Some []}"
  then have "falsy (query req ''secao'') \<or> falsy (query req ''proc'')
      \<or> falsy (query req ''uf'')"
    by (auto simp: falsy_iff)
  then show "get_consultar lower env req s =
        (\<lparr>status = 400,
          json = \<lparr>sucesso = False,
                  mensagem = str ''Par'' @ [226] @ str ''metros obrigat'' @ [243]
                               @ str ''rios: secao, proc, uf'',
                  temRPV = None, detalhes = None\<rparr>\<rparr>,
         s, [], [])"
    by (simp add: get_consultar_def Let_def msg_obrigatorios_def)
qed

theorem consultar_missing_field_witness:
  "(Map.empty(''secao'' \<mapsto> str ''TRF1'', ''proc'' \<mapsto> [])) ''uf'' = None
   \<and> post_consultar lower_latin1
        \<lparr>h_init = \<lparr>launch = Inr 1, newPage = Inr 2, setUserAgent = None\<rparr>,
         h_query = \<lparr>q_init = \<lparr>launch = Inr 1, newPage = Inr 2, setUserAgent = None\<rparr>,
                    goto = None, content = Inr (str ''RPV'')\<rparr>\<rparr>
        \<lparr>body = Map.empty(''secao'' \<mapsto> str ''TRF1'', ''proc'' \<mapsto> []), query = Map.empty\<rparr>
        constructor =
       (\<lparr>status = 400,
         json = \<lparr>sucesso = False,
                 mensagem = str ''Par'' @ [226] @ str ''metros obrigat'' @ [243]
                              @ str ''rios: secao, proc, uf'',
                 temRPV = None, detalhes = None\<rparr>\<rparr>,
        constructor, [], [])
   \<and> get_consultar lower_latin1
        \<lparr>h_init = \<lparr>launch = Inr 1, newPage = Inr 2, setUserAgent = None\<rparr>,
         h_query = \<lparr>q_init = \<lparr>launch = Inr 1, newPage = Inr 2, setUserAgent = None\<rparr>,
                    goto = None, content = Inr (str ''RPV'')\<rparr>\<rparr>
        \<lparr>body = Map.empty, query = Map.empty(''secao'' \<mapsto> str ''TRF1'', ''proc'' \<mapsto> [])\<rparr>
        constructor =
       (\<lparr>status = 400,
         json = \<lparr>sucesso = False,
                 mensagem = str ''Par'' @ [226] @ str ''metros obrigat'' @ [243]
                              @ str ''rios: secao, proc, uf'',
                 temRPV = None, detalhes = None\<rparr>\<rparr>,
        constructor, [], [])"
proof -
  let ?f = "Map.empty(''secao'' \<mapsto> str ''TRF1'', ''proc'' \<mapsto> [])"
  let ?env = "\<lparr>h_init = \<lparr>launch = Inr 1, newPage = Inr 2, setUserAgent = None\<rparr>,
         h_query = \<lparr>q_init = \<lparr>launch = Inr 1, newPage = Inr 2, setUserAgent = None\<rparr>,
                    goto = None, content = Inr (str ''RPV'')\<rparr>\<rparr>"
  have h: "?f ''uf'' = None" by simp
  note p = consultar_missing_field
    [of "\<lparr>body = ?f, query = Map.empty\<rparr>" lower_latin1 ?env constructor]
  note g = consultar_missing_field
    [of "\<lparr>body = Map.empty, query = ?f\<rparr>" lower_latin1 ?env constructor]
  from p have "post_consultar lower_latin1 ?env \<lparr>body = ?f, query = Map.empty\<rparr> constructor =
       (\<lparr>status = 400,
         json = \<lparr>sucesso = False,
                 mensagem = str ''Par'' @ [226] @ str ''metros obrigat'' @ [243]
                              @ str ''rios: secao, proc, uf'',
                 temRPV = None, detalhes = None\<rparr>\<rparr>,
        constructor, [], [])"
    by simp
  moreover
  from g have "get_consultar lower_latin1 ?env \<lparr>body = Map.empty, query = ?f\<rparr> constructor =
       (\<lparr>status = 400,
         json = \<lparr>sucesso = False,
                 mensagem = str ''Par'' @ [226] @ str ''metros obrigat'' @ [243]
                              @ str ''rios: secao, proc, uf'',
                 temRPV = None, detalhes = None\<rparr>\<rparr>,
        constructor, [], [])"
    by simp
  ultimately show ?thesis using h by blast
qed

text \<open>
  C9. Let a request carry \<open>secao\<close>, \<open>proc\<close> and \<open>uf\<close> in its query string and another
  carry the same three in its JSON body. On the same session and with the same answers
  of the library, the handler of \<open>GET /api/consultar\<close> on the first and the handler of
  \<open>POST /api/consultar\<close> on the second give the same status and body, leave the same
  session, invoke the same methods of the service with the same arguments and make the
  same calls on the library. This holds of every three fields, present or not.
\<close>

theorem get_post_consultar_agree:
  assumes "query req ''secao'' = secao" and "query req ''proc'' = proc"
    and "query req ''uf'' = uf"
    and "body req' ''secao'' = secao" and "body req' ''proc'' = proc"
    and "body req' ''uf'' = uf"
  shows "get_consultar lower env req s = post_consultar lower env req' s"
proof -
  have "get_consultar lower env req s =
     (if falsy secao \<or> falsy proc \<or> falsy uf then
        (\<lparr>status = 400,
          json = \<lparr>sucesso = False, mensagem = msg_obrigatorios,
                  temRPV = None, detalhes = None\<rparr>\<rparr>,
         s, [], [])
      else
        (case (if \<not> isReady s then (initialize (h_init env) s, [IsReady, Initialize])
               else ((Inr (), s, []), [IsReady])) of
           ((Inl e, s1, t1), invs) \<Rightarrow>
             (\<lparr>status = 500,
               json = \<lparr>sucesso = False, mensagem = msg_erro e,
                       temRPV = None, detalhes = None\<rparr>\<rparr>,
              s1, invs, t1)
         | ((Inr u, s1, t1), invs) \<Rightarrow>
             (case consultarProcesso lower (h_query env) s1 secao proc uf of
                (resultado, s2, t2) \<Rightarrow>
                  (\<lparr>status = 200, json = resultado\<rparr>,
                   s2, invs @ [ConsultarProcesso secao proc uf], t1 @ t2))))"
    using assms(1-3) by (simp add: get_consultar_def Let_def)
  also have "\<dots> = post_consultar lower env req' s"
    using assms(4-6) by (simp add: post_consultar_def Let_def)
  finally show ?thesis .
qed

theorem get_post_consultar_agree_witness:
  "get_consultar lower_latin1
     \<lparr>h_init = \<lparr>launch = Inr 1, newPage = Inr 2, setUserAgent = None\<rparr>,
      h_query = \<lparr>q_init = \<lparr>launch = Inr 1, newPage = Inr 2, setUserAgent = None\<rparr>,
                 goto = None,
                 content = Inr (str ''<b>Requisi'' @ [231, 227] @ str ''o de Pequeno Valor</b>'')\<rparr>\<rparr>
     \<lparr>body = Map.empty,
      query = Map.empty(''secao'' \<mapsto> str ''TRF1'', ''proc'' \<mapsto> str ''10025962720234013311'',
                        ''uf'' \<mapsto> str ''BA'')\<rparr>
     constructor =
   post_consultar lower_latin1
     \<lparr>h_init = \<lparr>launch = Inr 1, newPage = Inr 2, setUserAgent = None\<rparr>,
      h_query = \<lparr>q_init = \<lparr>launch = Inr 1, newPage = Inr 2, setUserAgent = None\<rparr>,
                 goto = None,
                 content = Inr (str ''<b>Requisi'' @ [231, 227] @ str ''o de Pequeno Valor</b>'')\<rparr>\<rparr>
     \<lparr>body = Map.empty(''secao'' \<mapsto> str ''TRF1'', ''proc'' \<mapsto> str ''10025962720234013311'',
                       ''uf'' \<mapsto> str ''BA''),
      query = Map.empty\<rparr>
     constructor
   \<and> fst (post_consultar lower_latin1
     \<lparr>h_init = \<lparr>launch = Inr 1, newPage = Inr 2, setUserAgent = None\<rparr>,
      h_query = \<lparr>q_init = \<lparr>launch = Inr 1, newPage = Inr 2, setUserAgent = None\<rparr>,
                 goto = None,
                 content = Inr (str ''<b>Requisi'' @ [231, 227] @ str ''o de Pequeno Valor</b>'')\<rparr>\<rparr>
     \<lparr>body = Map.empty(''secao'' \<mapsto> str ''TRF1'', ''proc'' \<mapsto> str ''10025962720234013311'',
                       ''uf'' \<mapsto> str ''BA''),
      query = Map.empty\<rparr>
     constructor) =
     \<lparr>status = 200,
      json = \<lparr>sucesso = True,
              mensagem = str ''RPV encontrada: Requisi'' @ [231, 227] @ str ''o de Pequeno Valor'',
              temRPV = Some True,
              detalhes = Some (str ''Requisi'' @ [231, 227] @ str ''o de Pequeno Valor'')\<rparr>\<rparr>"
proof -
  let ?f = "Map.empty(''secao'' \<mapsto> str ''TRF1'', ''proc'' \<mapsto> str ''10025962720234013311'',
                      ''uf'' \<mapsto> str ''BA'')"
  let ?env = "\<lparr>h_init = \<lparr>launch = Inr 1, newPage = Inr 2, setUserAgent = None\<rparr>,
      h_query = \<lparr>q_init = \<lparr>launch = Inr 1, newPage = Inr 2, setUserAgent = None\<rparr>,
                 goto = None,
                 content = Inr (str ''<b>Requisi'' @ [231, 227] @ str ''o de Pequeno Valor</b>'')\<rparr>\<rparr>"
  have e: "fst (post_consultar lower_latin1 ?env \<lparr>body = ?f, query = Map.empty\<rparr> constructor) =
     \<lparr>status = 200,
      json = \<lparr>sucesso = True,
              mensagem = str ''RPV encontrada: Requisi'' @ [231, 227] @ str ''o de Pequeno Valor'',
              temRPV = Some True,
              detalhes = Some (str ''Requisi'' @ [231, 227] @ str ''o de Pequeno Valor'')\<rparr>\<rparr>"
    by (simp add: post_consultar_def Let_def falsy_def isReady_def constructor_def
          initialize_def consultarProcesso_def consultarProcesso_try_def palavrasChaveRPV_def
          str_def lower_latin1_def msg_encontrada_def)
  have "get_consultar lower_latin1 ?env \<lparr>body = Map.empty, query = ?f\<rparr> constructor =
        post_consultar lower_latin1 ?env \<lparr>body = ?f, query = Map.empty\<rparr> constructor"
    by (rule get_post_consultar_agree
          [where secao = "Some (str ''TRF1'')" and proc = "Some (str ''10025962720234013311'')"
             and uf = "Some (str ''BA'')"]) simp_all
  with e show ?thesis by blast
qed

section \<open>The second variant agrees with the first\<close>

text \<open>
  Up to the extra calls in the trace, the second variant of \<open>initialize\<close> and of
  \<open>consultarProcesso\<close> returns what the first returns and leaves the session the first
  leaves, so what is proved above of results and sessions holds of both.
\<close>

lemma initialize_vercel_agrees:
  "fst (initialize_vercel env s) = fst (initialize (init_env_of env) s)
   \<and> fst (snd (initialize_vercel env s)) = fst (snd (initialize (init_env_of env) s))
   \<and> launches (snd (snd (initialize_vercel env s)))
       = launches (snd (snd (initialize (init_env_of env) s)))"
  by (simp add: initialize_vercel_def initialize_def init_env_of_def configure_vercel_def
        init_failed_def launches_def Let_def split: sum.split option.split)

lemma consultarProcesso_vercel_agrees:
  "fst (consultarProcesso_vercel lower env s secao proc uf)
     = fst (consultarProcesso lower (query_env_of env) s secao proc uf)
   \<and> fst (snd (consultarProcesso_vercel lower env s secao proc uf))
     = fst (snd (consultarProcesso lower (query_env_of env) s secao proc uf))"
proof -
  obtain r s1 t1 where v: "initialize_vercel (v_init env) s = (r, s1, t1)"
    by (cases "initialize_vercel (v_init env) s") auto
  obtain r' s1' t1' where i: "initialize (init_env_of (v_init env)) s = (r', s1', t1')"
    by (cases "initialize (init_env_of (v_init env)) s") auto
  from initialize_vercel_agrees [of "v_init env" s] v i have "r' = r" and "s1' = s1"
    by simp_all
  with v i show ?thesis
    by (simp add: consultarProcesso_vercel_def consultarProcesso_vercel_try_def
          consultarProcesso_def consultarProcesso_try_def query_env_of_def Let_def
          split: sum.split option.split prod.split)
qed

end
